theory Spec2Isabelle
  imports Complex_Main "HOL-Library.Sublist"
begin

section \<open>Python strings\<close>

text \<open>
  A Python \<open>str\<close> is modelled as a \<open>string\<close>, one \<open>char\<close> per code point, so the
  model covers the code points below 256. On that range the three built-ins below are
  the ones of CPython: \<open>str.isspace\<close> holds of the code points 9 to 13, 28 to 32, 133
  and 160; \<open>str.lower\<close> adds 32 to the capital letters \<open>A\<close> to \<open>Z\<close> and to the
  capital letters 192 to 222 other than the multiplication sign 215; \<open>str.strip()\<close>
  removes the whitespace at both ends.
\<close>

definition py_isspace :: "char \<Rightarrow> bool" where
  "py_isspace c =
     (let n = (of_char c :: nat)
      in (9 \<le> n \<and> n \<le> 13) \<or> (28 \<le> n \<and> n \<le> 32) \<or> n = 133 \<or> n = 160)"

definition py_lower_char :: "char \<Rightarrow> char" where
  "py_lower_char c =
     (let n = (of_char c :: nat)
      in if (65 \<le> n \<and> n \<le> 90) \<or> (192 \<le> n \<and> n \<le> 214) \<or> (216 \<le> n \<and> n \<le> 222)
         then char_of (n + 32) else c)"

definition py_lower :: "string \<Rightarrow> string" where
  "py_lower s = map py_lower_char s"

definition py_lstrip :: "string \<Rightarrow> string" where
  "py_lstrip s = dropWhile py_isspace s"

definition py_rstrip :: "string \<Rightarrow> string" where
  "py_rstrip s = rev (dropWhile py_isspace (rev s))"

definition py_strip :: "string \<Rightarrow> string" where
  "py_strip s = py_rstrip (py_lstrip s)"

text \<open>
  A slice \<open>xs[:k]\<close>: the first \<open>k\<close> elements, and for a negative \<open>k\<close> all but the
  last \<open>-k\<close>.
\<close>

definition py_take :: "int \<Rightarrow> 'a list \<Rightarrow> 'a list" where
  "py_take k xs =
     (if 0 \<le> k then take (nat k) xs else take (nat (int (length xs) + k)) xs)"

section \<open>Rule reasoner (\<open>rule_reasoner.py\<close>)\<close>

text \<open>
  The dictionary that \<open>reason_mcq\<close> returns has the three keys \<open>status\<close>,
  \<open>explanation_hint\<close> and \<open>review_topic\<close>, inserted in this order.
\<close>

record reasoning =
  status :: string
  explanation_hint :: string
  review_topic :: string

definition correct_hint :: string where
  "correct_hint = ''Your answer is correct! You have a good understanding of this concept.''"

definition correct_review :: string where
  "correct_review =
     ''You have mastered this topic. Consider reviewing related advanced concepts.''"

definition incorrect_hint :: string where
  "incorrect_hint =
     ''Your answer is incorrect. The selected option appears to be related to a different '' @
     ''concept than what the question is focusing on. Please review the lecture material '' @
     ''related to this topic.''"

definition generic_review :: string where
  "generic_review =
     ''You should review the lecture section mentioned in the evidence. '' @
     ''Pay special attention to the key concepts and definitions related to this question.''"

definition evidence_review :: "string \<Rightarrow> string" where
  "evidence_review evidence =
     ''You should review the lecture section mentioned in the evidence: '' @
     take 100 evidence @ ''... (if applicable). '' @
     ''Focus on understanding the key concepts and their relationships.''"

definition reason_mcq :: "string \<Rightarrow> string \<Rightarrow> string \<Rightarrow> string \<Rightarrow> reasoning" where
  "reason_mcq question student_answer correct_answer evidence =
     (let student_normalized = py_lower (py_strip student_answer);
          correct_normalized = py_lower (py_strip correct_answer);
          is_correct = (student_normalized = correct_normalized)
      in if is_correct
         then \<lparr>status = ''correct'',
               explanation_hint = correct_hint,
               review_topic = correct_review\<rparr>
         else \<lparr>status = ''incorrect'',
               explanation_hint = incorrect_hint,
               review_topic =
                 (if evidence \<noteq> [] then evidence_review evidence else generic_review)\<rparr>)"

section \<open>Exceptions and the world outside the repository\<close>

text \<open>
  An \<open>exn\<close> is an instance of Python's class \<open>Exception\<close>, with its message where the
  source writes one; \<open>OtherException\<close> stands for every class that the source does not
  name. The signals that are not instances of \<open>Exception\<close> (\<open>KeyboardInterrupt\<close>,
  \<open>SystemExit\<close>) are not errors and are outside the model. A function that may raise
  returns \<open>exn + 'a\<close>, with \<open>Inl\<close> for the exception raised. The warnings that the
  source prints are not modelled.
\<close>

datatype exn =
  ValueError string
| RuntimeError string
| IndexError
| OtherException string

text \<open>
  The repository calls four things that are not its own code; they are fields of the
  record \<open>externals\<close>, which every function that reaches them takes as an argument.
  \<^item> \<open>tfidf_similarities all_docs\<close> stands for lines 41 to 48 of
    \<open>tfidf_extractor.py\<close>: scikit-learn fits its TF-IDF model on \<open>all_docs\<close> and
    returns the cosine similarity of the first row to each of the other rows, or raises.
  \<^item> \<open>argsort\<close> is \<open>numpy.argsort\<close>: the indices of an array in an order that sorts
    it ascending; the order of equal elements is not fixed by numpy.
  \<^item> \<open>getenv\<close> is \<open>os.getenv\<close>.
  \<^item> \<open>post_chat url authorization system_prompt user_prompt\<close> stands for lines 72 to
    74 of \<open>llm_adapter.py\<close>: the POST request with the two prompts as messages, the
    status check and the decoding of the body. It returns \<open>Inl\<close> of the message of the
    \<open>RequestException\<close> raised, or the decoded response.
  The similarities are floating-point numbers in Python; the model takes them as reals,
  of which it uses the order and the comparison with zero only.
\<close>

record response =
  body :: string  \<comment> \<open>the decoded data, printed\<close>
  choices :: "(exn + string) list option"
    \<comment> \<open>\<open>None\<close> when the data have no key \<open>choices\<close>; else, for each choice, what
        reading its \<open>["message"]["content"]\<close> gives: the text, or the exception raised\<close>

record externals =
  tfidf_similarities :: "string list \<Rightarrow> exn + real list"
  argsort :: "real list \<Rightarrow> nat list"
  getenv :: "string \<Rightarrow> string option"
  post_chat :: "string \<Rightarrow> string \<Rightarrow> string \<Rightarrow> string \<Rightarrow> string + response"

section \<open>Snippet retriever (\<open>tfidf_extractor.py\<close>)\<close>

text \<open>
  The comprehension \<open>[lecture_docs[i] for i in top_indices if similarities[i] > 0]\<close>.
  An index out of range raises \<open>IndexError\<close>, first in \<open>similarities\<close>, then in
  \<open>lecture_docs\<close>.
\<close>

fun relevant_snippets :: "real list \<Rightarrow> string list \<Rightarrow> nat list \<Rightarrow> exn + string list" where
  "relevant_snippets similarities lecture_docs [] = Inr []"
| "relevant_snippets similarities lecture_docs (i # top_indices) =
     (if length similarities \<le> i then Inl IndexError
      else if similarities ! i > 0
      then (if length lecture_docs \<le> i then Inl IndexError
            else case relevant_snippets similarities lecture_docs top_indices of
                   Inl e \<Rightarrow> Inl e
                 | Inr snippets \<Rightarrow> Inr (lecture_docs ! i # snippets))
      else relevant_snippets similarities lecture_docs top_indices)"

text \<open>The body of the \<open>try\<close> block, lines 40 to 60.\<close>

definition scored_snippets :: "externals \<Rightarrow> string \<Rightarrow> string list \<Rightarrow> int \<Rightarrow> exn + string list" where
  "scored_snippets X question_text lecture_docs top_k =
     (let all_docs = question_text # lecture_docs
      in case tfidf_similarities X all_docs of
           Inl e \<Rightarrow> Inl e
         | Inr similarities \<Rightarrow>
             (let top_indices = py_take top_k (rev (argsort X similarities))
              in case relevant_snippets similarities lecture_docs top_indices of
                   Inl e \<Rightarrow> Inl e
                 | Inr snippets \<Rightarrow>
                     if snippets = [] then Inr (py_take top_k lecture_docs)
                     else Inr snippets))"

definition get_relevant_snippet :: "externals \<Rightarrow> string \<Rightarrow> string list \<Rightarrow> int \<Rightarrow> string list" where
  "get_relevant_snippet X question_text lecture_docs top_k =
     (if lecture_docs = [] then []
      else if py_strip question_text = [] then py_take top_k lecture_docs
      else case scored_snippets X question_text lecture_docs top_k of
             Inl e \<Rightarrow> py_take top_k lecture_docs
           | Inr snippets \<Rightarrow> snippets)"

section \<open>Explanation clients (\<open>llm_adapter.py\<close>)\<close>

text \<open>
  To the pipeline a client is its method \<open>generate\<close>, from the system prompt and the
  user prompt to the text, or to the exception raised.
\<close>

type_synonym llm_client = "string \<Rightarrow> string \<Rightarrow> exn + string"

record client_config =
  api_key :: string
  base_url :: string

definition rstrip_slash :: "string \<Rightarrow> string" where
  "rstrip_slash s = rev (dropWhile (\<lambda>c. c = CHR ''/'') (rev s))"

text \<open>
  \<open>api_key or os.getenv(name)\<close>: the argument when it is a non-empty string, else the
  environment's value, which may be absent or empty.
\<close>

definition resolve_key :: "(string \<Rightarrow> string option) \<Rightarrow> string option \<Rightarrow> string \<Rightarrow> string option" where
  "resolve_key env key name =
     (case key of
        None \<Rightarrow> env name
      | Some k \<Rightarrow> if k \<noteq> [] then Some k else env name)"

text \<open>
  The constructors of \<open>DeepSeekClient\<close> and \<open>OpenAIClient\<close> are the same code, up to
  the provider's name in the message and the name of the environment variable.
\<close>

definition client_init ::
  "string \<Rightarrow> string \<Rightarrow> (string \<Rightarrow> string option) \<Rightarrow> string option \<Rightarrow> string \<Rightarrow> exn + client_config" where
  "client_init provider name env key url =
     (case resolve_key env key name of
        None \<Rightarrow> Inl (ValueError (provider @ '' API key not provided. Set '' @ name @
                  '' environment variable or pass api_key to constructor.''))
      | Some k \<Rightarrow>
          if k = []
          then Inl (ValueError (provider @ '' API key not provided. Set '' @ name @
                  '' environment variable or pass api_key to constructor.''))
          else Inr \<lparr>api_key = k, base_url = rstrip_slash url\<rparr>)"

definition DeepSeekClient :: "(string \<Rightarrow> string option) \<Rightarrow> string option \<Rightarrow> string \<Rightarrow> exn + client_config" where
  "DeepSeekClient env key url = client_init ''DeepSeek'' ''DEEPSEEK_API_KEY'' env key url"

definition OpenAIClient :: "(string \<Rightarrow> string option) \<Rightarrow> string option \<Rightarrow> string \<Rightarrow> exn + client_config" where
  "OpenAIClient env key url = client_init ''OpenAI'' ''OPENAI_API_KEY'' env key url"

definition deepseek_default_url :: string where
  "deepseek_default_url = ''https://api.deepseek.com''"

definition DeepSeekClient_generate :: "externals \<Rightarrow> client_config \<Rightarrow> llm_client" where
  "DeepSeekClient_generate X self system_prompt user_prompt =
     (case post_chat X (base_url self @ ''/chat/completions'') (''Bearer '' @ api_key self)
             system_prompt user_prompt of
        Inl e \<Rightarrow> Inl (RuntimeError (''Failed to call DeepSeek API: '' @ e))
      | Inr data \<Rightarrow>
          (case choices data of
             Some (choice # _) \<Rightarrow> choice
           | _ \<Rightarrow> Inl (ValueError (''Unexpected API response structure: '' @ body data))))"

definition openai_placeholder :: string where
  "openai_placeholder =
     ''OpenAI client not yet implemented. Please use DeepSeekClient for now.''"

definition OpenAIClient_generate :: "client_config \<Rightarrow> llm_client" where
  "OpenAIClient_generate self system_prompt user_prompt = Inr openai_placeholder"

section \<open>Pipeline (\<open>xai_pipeline.py\<close>)\<close>

text \<open>
  The user prompt prints the dictionary \<open>reasoning\<close>, which Python does with \<open>repr\<close>:
  a string is quoted with apostrophes, or with double quotes when it holds an apostrophe
  and no double quote; the quote and the backslash are escaped, tab, newline and
  carriage return are written \<open>\t\<close>, \<open>\n\<close>, \<open>\r\<close>, and every other code point that is
  not printable is written \<open>\xhh\<close>.
\<close>

definition py_isprintable :: "char \<Rightarrow> bool" where
  "py_isprintable c =
     (let n = (of_char c :: nat) in (32 \<le> n \<and> n \<le> 126) \<or> (161 \<le> n \<and> n \<noteq> 173))"

definition hex_digit :: "nat \<Rightarrow> char" where
  "hex_digit n = ''0123456789abcdef'' ! n"

definition py_repr_char :: "char \<Rightarrow> char \<Rightarrow> string" where
  "py_repr_char quote c =
     (if c = quote \<or> c = CHR 0x5C then [CHR 0x5C, c]
      else if c = CHR 0x09 then [CHR 0x5C, CHR ''t'']
      else if c = CHR 0x0A then [CHR 0x5C, CHR ''n'']
      else if c = CHR 0x0D then [CHR 0x5C, CHR ''r'']
      else if \<not> py_isprintable c
      then [CHR 0x5C, CHR ''x'', hex_digit (of_char c div 16), hex_digit (of_char c mod 16)]
      else [c])"

definition py_repr :: "string \<Rightarrow> string" where
  "py_repr s =
     (let quote = (if CHR 0x27 \<in> set s \<and> CHR 0x22 \<notin> set s then CHR 0x22 else CHR 0x27)
      in quote # concat (map (py_repr_char quote) s) @ [quote])"

definition repr_reasoning :: "reasoning \<Rightarrow> string" where
  "repr_reasoning r =
     ''{'' @ py_repr ''status'' @ '': '' @ py_repr (status r) @ '', '' @
     py_repr ''explanation_hint'' @ '': '' @ py_repr (explanation_hint r) @ '', '' @
     py_repr ''review_topic'' @ '': '' @ py_repr (review_topic r) @ ''}''"

definition system_prompt :: string where
  "system_prompt =
     ''You are an Explainable AI assistant for a university MCQ system. '' @
     ''You must explain answers in simple, clear terms that help students understand '' @
     ''both why their answer is correct or incorrect and what concepts they should review. '' @
     ''Keep explanations concise (3-6 sentences) and educational.''"

definition user_prompt :: "string \<Rightarrow> string \<Rightarrow> string \<Rightarrow> string \<Rightarrow> reasoning \<Rightarrow> string" where
  "user_prompt question student_answer correct_answer evidence r =
     ''\<newline>Question: '' @ question @
     ''\<newline>\<newline>Student answer: '' @ student_answer @
     ''\<newline>\<newline>Correct answer: '' @ correct_answer @
     ''\<newline>\<newline>Evidence from lecture: '' @ evidence @
     ''\<newline>\<newline>Internal reasoning: '' @ repr_reasoning r @
     ''\<newline>\<newline>Write a short explanation (3-6 sentences) for the student. '' @
     ''Start with whether they are correct or not, \<newline>'' @
     ''then mention the related topic and key concepts they should understand.\<newline>''"

text \<open>The dictionary that \<open>run_xai\<close> returns.\<close>

record pipeline_result =
  status :: string
  explanation :: string
  evidence :: string
  review_topic :: string

text \<open>
  Step 3 of \<open>run_xai\<close>: the client supplied, or else a \<open>DeepSeekClient\<close> built with
  no argument, whose constructor may raise.
\<close>

definition default_client :: "externals \<Rightarrow> llm_client option \<Rightarrow> exn + llm_client" where
  "default_client X llm_client =
     (case llm_client of
        Some client \<Rightarrow> Inr client
      | None \<Rightarrow>
          (case DeepSeekClient (getenv X) None deepseek_default_url of
             Inl e \<Rightarrow> Inl e
           | Inr self \<Rightarrow> Inr (DeepSeekClient_generate X self)))"

definition run_xai ::
  "externals \<Rightarrow> string \<Rightarrow> string \<Rightarrow> string \<Rightarrow> string list \<Rightarrow> llm_client option
     \<Rightarrow> exn + pipeline_result" where
  "run_xai X question student_answer correct_answer lecture_docs llm_client =
     (let evidence_list = get_relevant_snippet X question lecture_docs 1;
          evidence = (case evidence_list of [] \<Rightarrow> [] | snippet # _ \<Rightarrow> snippet);
          reasoning = reason_mcq question student_answer correct_answer evidence
      in case default_client X llm_client of
           Inl e \<Rightarrow>
             (case e of
                ValueError _ \<Rightarrow>
                  Inr \<lparr>status = reasoning.status reasoning,
                       explanation = explanation_hint reasoning,
                       evidence = evidence,
                       review_topic = reasoning.review_topic reasoning\<rparr>
              | RuntimeError _ \<Rightarrow>
                  Inr \<lparr>status = reasoning.status reasoning,
                       explanation = explanation_hint reasoning,
                       evidence = evidence,
                       review_topic = reasoning.review_topic reasoning\<rparr>
              | _ \<Rightarrow> Inl e)
         | Inr client \<Rightarrow>
             (let llm_text =
                    (case client system_prompt
                            (user_prompt question student_answer correct_answer evidence reasoning) of
                       Inl e \<Rightarrow> explanation_hint reasoning
                     | Inr text \<Rightarrow> text)
              in Inr \<lparr>status = reasoning.status reasoning,
                      explanation = llm_text,
                      evidence = evidence,
                      review_topic = reasoning.review_topic reasoning\<rparr>))"

section \<open>What the libraries promise, and example instances\<close>

text \<open>
  \<open>is_argsort xs order\<close> is what numpy documents of \<open>order = argsort(xs)\<close>: \<open>order\<close>
  lists every index of \<open>xs\<close> once, and reading \<open>xs\<close> in that order gives an
  ascending sequence.
\<close>

definition is_argsort :: "real list \<Rightarrow> nat list \<Rightarrow> bool" where
  "is_argsort xs order \<longleftrightarrow>
     sort order = [0..<length xs] \<and> sorted (map (\<lambda>i. xs ! i) order)"

text \<open>
  The indices that the comprehension of \<open>get_relevant_snippet\<close> keeps when none is out
  of range: those among the first \<open>top_k\<close> of the reversed order whose similarity is
  positive.
\<close>

definition kept_indices :: "real list \<Rightarrow> nat list \<Rightarrow> int \<Rightarrow> nat list" where
  "kept_indices sims order k = filter (\<lambda>i. 0 < sims ! i) (py_take k (rev order))"

text \<open>One such function: the sort that keeps equal elements in their order.\<close>

definition stable_argsort :: "real list \<Rightarrow> nat list" where
  "stable_argsort xs = sort_key (\<lambda>i. xs ! i) [0..<length xs]"

definition example_docs :: "string list" where
  "example_docs =
     [''Week 3: TF-IDF measures how important a word is in a document.'',
      ''Week 5: Explainable AI gives reasons for model outputs.'',
      ''Week 7: Text mining uses vectorization methods like TF-IDF.'']"

text \<open>
  A scorer for the examples: it gives each document a similarity that depends on the
  document only, and raises on an empty corpus.
\<close>

definition example_score :: "string \<Rightarrow> real" where
  "example_score d =
     (if d = ''Week 3: TF-IDF measures how important a word is in a document.'' then 1 / 2
      else if d = ''Week 7: Text mining uses vectorization methods like TF-IDF.'' then 1 / 4
      else 0)"

definition example_similarities :: "string list \<Rightarrow> exn + real list" where
  "example_similarities all_docs =
     (case all_docs of
        [] \<Rightarrow> Inl (ValueError ''empty vocabulary'')
      | query # docs \<Rightarrow> Inr (map example_score docs))"

definition example_externals :: externals where
  "example_externals =
     \<lparr>tfidf_similarities = example_similarities,
      argsort = stable_argsort,
      getenv = (\<lambda>name. None),
      post_chat = (\<lambda>url authorization system user. Inl ''connection refused'')\<rparr>"

definition raising_client :: llm_client where
  "raising_client system user = Inl (RuntimeError ''provider unavailable'')"

definition fixed_client :: llm_client where
  "fixed_client system user = Inr ''Great job!''"

definition example_config :: client_config where
  "example_config = \<lparr>api_key = ''sk-example'', base_url = ''https://api.openai.com/v1''\<rparr>"

section \<open>Properties of the string functions\<close>

lemma py_strip_blank:
  assumes "\<forall>ch\<in>set s. py_isspace ch"
  shows "py_strip s = []"
proof -
  from assms have h: "dropWhile py_isspace s = []" by simp
  show ?thesis unfolding py_strip_def py_lstrip_def py_rstrip_def h by simp
qed

lemma py_strip_Nil_iff: "py_strip s = [] \<longleftrightarrow> (\<forall>ch\<in>set s. py_isspace ch)"
proof
  assume "py_strip s = []"
  then have "\<forall>ch\<in>set (dropWhile py_isspace s). py_isspace ch"
    by (simp add: py_strip_def py_lstrip_def py_rstrip_def dropWhile_eq_Nil_conv)
  then have "dropWhile py_isspace s = []"
    by (metis hd_dropWhile list.set_sel(1))
  then show "\<forall>ch\<in>set s. py_isspace ch"
    by (simp add: dropWhile_eq_Nil_conv)
qed (rule py_strip_blank)

lemma py_isspace_lower: "py_isspace (py_lower_char ch) = py_isspace ch"
  by (auto simp: py_isspace_def py_lower_char_def Let_def)

lemma dropWhile_lower:
  "dropWhile py_isspace (map py_lower_char s) = map py_lower_char (dropWhile py_isspace s)"
  by (induction s) (simp_all add: py_isspace_lower)

lemma py_strip_lower: "py_strip (py_lower s) = py_lower (py_strip s)"
  by (simp add: py_strip_def py_lstrip_def py_rstrip_def py_lower_def rev_map dropWhile_lower)

lemma py_lstrip_pad: "\<forall>ch\<in>set l. py_isspace ch \<Longrightarrow> py_lstrip (l @ s) = py_lstrip s"
  by (simp add: py_lstrip_def dropWhile_append)

lemma py_rstrip_pad: "\<forall>ch\<in>set r. py_isspace ch \<Longrightarrow> py_rstrip (s @ r) = py_rstrip s"
  by (simp add: py_rstrip_def dropWhile_append)

lemma py_strip_pad:
  assumes "\<forall>ch\<in>set l. py_isspace ch" and "\<forall>ch\<in>set r. py_isspace ch"
  shows "py_strip (l @ s @ r) = py_strip s"
proof (cases "\<forall>ch\<in>set s. py_isspace ch")
  case True
  with assms have "\<forall>ch\<in>set (l @ s @ r). py_isspace ch" by auto
  then show ?thesis using True by (simp only: py_strip_blank)
next
  case False
  then have "py_lstrip (s @ r) = py_lstrip s @ r"
    by (auto simp: py_lstrip_def dropWhile_append)
  then show ?thesis
    using assms by (simp add: py_strip_def py_lstrip_pad py_rstrip_pad)
qed

lemma py_lower_strip_cong:
  assumes "py_lower s = py_lower s'"
  shows "py_lower (py_strip s) = py_lower (py_strip s')"
proof -
  have "py_lower (py_strip s) = py_strip (py_lower s)" by (simp add: py_strip_lower)
  also have "\<dots> = py_strip (py_lower s')" by (simp add: assms)
  also have "\<dots> = py_lower (py_strip s')" by (simp add: py_strip_lower)
  finally show ?thesis .
qed

section \<open>The rule reasoner's verdict\<close>

text \<open>
  Claim C3. For every question, student answer, correct answer and evidence, the status
  that \<open>reason_mcq\<close> returns is \<open>correct\<close> exactly when the two answers are equal after
  \<open>strip\<close> and \<open>lower\<close>, and \<open>incorrect\<close> otherwise. So the status does not change
  when whitespace is put around the student's answer, nor when the answer is replaced
  by one that differs from it in the case of its letters only.
\<close>

theorem reason_mcq_status_iff:
  "reasoning.status (reason_mcq q s c ev) =
     (if py_lower (py_strip s) = py_lower (py_strip c) then ''correct'' else ''incorrect'')
   \<and> ((\<forall>ch\<in>set l. py_isspace ch) \<and> (\<forall>ch\<in>set r. py_isspace ch) \<longrightarrow>
        reasoning.status (reason_mcq q (l @ s @ r) c ev) = reasoning.status (reason_mcq q s c ev))
   \<and> (py_lower s = py_lower s' \<longrightarrow>
        reasoning.status (reason_mcq q s' c ev) = reasoning.status (reason_mcq q s c ev))"
proof (intro conjI)
  show "reasoning.status (reason_mcq q s c ev) =
     (if py_lower (py_strip s) = py_lower (py_strip c) then ''correct'' else ''incorrect'')"
    by (simp add: reason_mcq_def)
  show "(\<forall>ch\<in>set l. py_isspace ch) \<and> (\<forall>ch\<in>set r. py_isspace ch) \<longrightarrow>
     reasoning.status (reason_mcq q (l @ s @ r) c ev) = reasoning.status (reason_mcq q s c ev)"
    by (simp add: reason_mcq_def py_strip_pad)
  show "py_lower s = py_lower s' \<longrightarrow>
     reasoning.status (reason_mcq q s' c ev) = reasoning.status (reason_mcq q s c ev)"
    using py_lower_strip_cong [of s s'] by (simp add: reason_mcq_def)
qed

theorem reason_mcq_status_iff_witness:
  "reasoning.status (reason_mcq ''Capital of France?'' ''  paris '' ''Paris'' ''e'') = ''correct''
   \<and> reasoning.status (reason_mcq ''Capital of France?'' ''Berlin'' ''Paris'' ''e'') = ''incorrect''
   \<and> reasoning.status (reason_mcq ''Capital of France?'' (''  '' @ ''Berlin'' @ '' '') ''Paris'' ''e'')
       = reasoning.status (reason_mcq ''Capital of France?'' ''Berlin'' ''Paris'' ''e'')
   \<and> reasoning.status (reason_mcq ''Capital of France?'' ''PARIS'' ''Paris'' ''e'')
       = reasoning.status (reason_mcq ''Capital of France?'' ''paris'' ''Paris'' ''e'')"
proof -
  have a: "py_lower (py_strip ''  paris '') = ''paris''" by code_simp
  have b: "py_lower (py_strip ''Paris'') = ''paris''" by code_simp
  have c: "py_lower (py_strip ''Berlin'') = ''berlin''" by code_simp
  have d: "\<forall>ch\<in>set ''  ''. py_isspace ch" by code_simp
  have e: "\<forall>ch\<in>set '' ''. py_isspace ch" by code_simp
  have f: "py_lower ''paris'' = py_lower ''PARIS''" by code_simp
  show ?thesis
    using reason_mcq_status_iff [of "''Capital of France?''" "''  paris ''" "''Paris''" "''e''"]
      reason_mcq_status_iff [of "''Capital of France?''" "''Berlin''" "''Paris''" "''e''" "''  ''" "'' ''"]
      reason_mcq_status_iff [of "''Capital of France?''" "''paris''" "''Paris''" "''e''" _ _ "''PARIS''"]
      a b c d e f
    by simp
qed

text \<open>
  Claim C10. When the student's answer and the correct answer both consist of
  whitespace only (the empty string included), both normalise to the empty string, and
  \<open>reason_mcq\<close> returns the status \<open>correct\<close> with the fixed encouraging hint,
  whatever the question and the evidence.
\<close>

theorem reason_mcq_blank_answers:
  assumes "\<forall>ch\<in>set s. py_isspace ch" and "\<forall>ch\<in>set c. py_isspace ch"
  shows "py_lower (py_strip s) = [] \<and> py_lower (py_strip c) = [] \<and>
         reason_mcq q s c ev =
           \<lparr>reasoning.status = ''correct'',
            explanation_hint =
              ''Your answer is correct! You have a good understanding of this concept.'',
            reasoning.review_topic =
              ''You have mastered this topic. Consider reviewing related advanced concepts.''\<rparr>"
  using assms
  by (simp add: reason_mcq_def py_strip_blank py_lower_def correct_hint_def correct_review_def)

theorem reason_mcq_blank_answers_witness:
  "reason_mcq ''Which one?'' [CHR '' '', CHR 0x09] [] ''Week 3'' =
     \<lparr>reasoning.status = ''correct'',
      explanation_hint =
        ''Your answer is correct! You have a good understanding of this concept.'',
      reasoning.review_topic =
        ''You have mastered this topic. Consider reviewing related advanced concepts.''\<rparr>"
proof -
  have a: "\<forall>ch\<in>set [CHR '' '', CHR 0x09]. py_isspace ch" by code_simp
  have b: "\<forall>ch\<in>set []. py_isspace ch" by simp
  show ?thesis
    using reason_mcq_blank_answers [OF a b, of "''Which one?''" "''Week 3''"] by simp
qed

text \<open>
  Claim C6. When the two answers differ after normalisation: for a non-empty evidence
  the review topic is the fixed sentence with the first 100 characters of the evidence in
  it, followed by the ellipsis \<open>...\<close>, so it contains that excerpt; for an empty
  evidence it is the generic instruction, a fixed text with no excerpt in it.
\<close>

theorem reason_mcq_review_topic:
  assumes "py_lower (py_strip s) \<noteq> py_lower (py_strip c)"
  shows "(ev \<noteq> [] \<longrightarrow>
           reasoning.review_topic (reason_mcq q s c ev) =
             ''You should review the lecture section mentioned in the evidence: '' @
             take 100 ev @ ''...'' @
             '' (if applicable). Focus on understanding the key concepts and their relationships.''
           \<and> sublist (take 100 ev @ ''...'') (reasoning.review_topic (reason_mcq q s c ev)))
       \<and> (ev = [] \<longrightarrow>
           reasoning.review_topic (reason_mcq q s c ev) =
             ''You should review the lecture section mentioned in the evidence. Pay special attention to the key concepts and definitions related to this question.'')"
proof (intro conjI)
  let ?pre = "''You should review the lecture section mentioned in the evidence: ''"
  let ?post = "'' (if applicable). Focus on understanding the key concepts and their relationships.''"
  have eq: "ev \<noteq> [] \<Longrightarrow>
    reasoning.review_topic (reason_mcq q s c ev) = ?pre @ (take 100 ev @ ''...'') @ ?post"
    using assms by (simp add: reason_mcq_def evidence_review_def)
  have "sublist (take 100 ev @ ''...'') (?pre @ (take 100 ev @ ''...'') @ ?post)"
    unfolding sublist_def by blast
  with eq show "ev \<noteq> [] \<longrightarrow>
           reasoning.review_topic (reason_mcq q s c ev) =
             ?pre @ take 100 ev @ ''...'' @ ?post
           \<and> sublist (take 100 ev @ ''...'') (reasoning.review_topic (reason_mcq q s c ev))"
    by simp
  show "ev = [] \<longrightarrow>
           reasoning.review_topic (reason_mcq q s c ev) =
             ''You should review the lecture section mentioned in the evidence. Pay special attention to the key concepts and definitions related to this question.''"
    using assms by (simp add: reason_mcq_def generic_review_def)
qed

theorem reason_mcq_review_topic_witness:
  "reasoning.review_topic (reason_mcq ''Capital of France?'' ''Berlin'' ''Paris'' ''Week 2: Paris'') =
     ''You should review the lecture section mentioned in the evidence: Week 2: Paris... (if applicable). Focus on understanding the key concepts and their relationships.''
   \<and> reasoning.review_topic (reason_mcq ''Capital of France?'' ''Berlin'' ''Paris'' []) =
     ''You should review the lecture section mentioned in the evidence. Pay special attention to the key concepts and definitions related to this question.''"
proof -
  have a: "py_lower (py_strip ''Berlin'') \<noteq> py_lower (py_strip ''Paris'')" by code_simp
  show ?thesis
    using reason_mcq_review_topic [OF a, of "''Week 2: Paris''" "''Capital of France?''"]
      reason_mcq_review_topic [OF a, of "[]" "''Capital of France?''"]
    by simp
qed

section \<open>Properties of slices and of the ranking\<close>

lemma py_take_pos: "0 < k \<Longrightarrow> py_take k xs = take (nat k) xs"
  by (simp add: py_take_def)

lemma py_take_prefix: "\<exists>m. py_take k xs = take m xs"
  by (auto simp: py_take_def)

lemma py_take_Nil_length:
  "length xs = length ys \<Longrightarrow> py_take k xs = [] \<longleftrightarrow> py_take k ys = []"
  by (auto simp: py_take_def)

lemma take_as_indices: "take m xs = map ((!) xs) (take m [0..<length xs])"
proof -
  have "take m xs = take m (map ((!) xs) [0..<length xs])" by (simp add: map_nth)
  then show ?thesis by (simp only: take_map)
qed

lemma sorted_wrt_all_equal:
  "\<forall>x\<in>set xs. \<forall>y\<in>set xs. P x y \<Longrightarrow> sorted_wrt P xs"
  by (induction xs) auto

lemma relevant_snippets_in_range:
  "\<forall>i\<in>set idxs. i < length sims \<and> i < length D \<Longrightarrow>
   relevant_snippets sims D idxs = Inr (map ((!) D) (filter (\<lambda>i. 0 < sims ! i) idxs))"
  by (induction idxs) auto

lemma is_argsort_set: "is_argsort xs order \<Longrightarrow> set order = {0..<length xs}"
  by (metis is_argsort_def set_sort set_upt)

lemma is_argsort_distinct: "is_argsort xs order \<Longrightarrow> distinct order"
  by (metis is_argsort_def distinct_sort distinct_upt)

lemma is_argsort_descending:
  "is_argsort xs order \<Longrightarrow> sorted_wrt (\<lambda>i j. xs ! j \<le> xs ! i) (rev order)"
  by (simp add: is_argsort_def sorted_wrt_rev sorted_map)

lemma top_is_maximal:
  assumes "is_argsort xs order" and "take m (rev order) \<noteq> []" and "i < length xs"
  shows "xs ! i \<le> xs ! hd (take m (rev order))"
proof -
  from assms(2) obtain j rest where jr: "rev order = j # rest"
    by (cases "rev order") auto
  from assms(2) have "m \<noteq> 0" by (cases m) auto
  with jr have hd: "hd (take m (rev order)) = j" by (cases m) auto
  from is_argsort_descending [OF assms(1)] jr
  have le: "\<forall>y\<in>set rest. xs ! y \<le> xs ! j" by simp
  from assms(1,3) have "i \<in> set (rev order)" by (simp add: is_argsort_set)
  with jr have "i = j \<or> i \<in> set rest" by simp
  with le hd show ?thesis by auto
qed

lemma kept_indices_props:
  assumes "is_argsort sims order"
  shows "distinct (kept_indices sims order k)"
    and "\<forall>i\<in>set (kept_indices sims order k). i < length sims \<and> 0 < sims ! i"
    and "sorted_wrt (\<lambda>i j. sims ! j \<le> sims ! i) (kept_indices sims order k)"
    and "0 < k \<Longrightarrow> length (kept_indices sims order k) \<le> nat k"
proof -
  obtain m where m: "py_take k (rev order) = take m (rev order)"
    using py_take_prefix by blast
  have d: "distinct (rev order)" using assms by (simp add: is_argsort_distinct)
  show "distinct (kept_indices sims order k)"
    using d by (simp add: kept_indices_def m)
  have "set (take m (rev order)) \<subseteq> {0..<length sims}"
    using set_take_subset [of m "rev order"] is_argsort_set [OF assms] by simp
  then show "\<forall>i\<in>set (kept_indices sims order k). i < length sims \<and> 0 < sims ! i"
    by (auto simp: kept_indices_def m)
  show "sorted_wrt (\<lambda>i j. sims ! j \<le> sims ! i) (kept_indices sims order k)"
    unfolding kept_indices_def m
    by (intro sorted_wrt_filter sorted_wrt_take is_argsort_descending [OF assms])
  show "0 < k \<Longrightarrow> length (kept_indices sims order k) \<le> nat k"
  proof -
    assume "0 < k"
    then have "length (py_take k (rev order)) \<le> nat k" by (simp add: py_take_pos)
    moreover have "length (kept_indices sims order k) \<le> length (py_take k (rev order))"
      by (simp add: kept_indices_def)
    ultimately show ?thesis by linarith
  qed
qed

lemma kept_indices_Nil:
  assumes "is_argsort sims order" and "kept_indices sims order k = []"
    and "i < length sims" and "0 < sims ! i"
  shows "py_take k (rev order) = []"
proof (rule ccontr)
  assume ne: "py_take k (rev order) \<noteq> []"
  obtain m where m: "py_take k (rev order) = take m (rev order)"
    using py_take_prefix by blast
  let ?j = "hd (take m (rev order))"
  from ne m have ne': "take m (rev order) \<noteq> []" by simp
  have "sims ! i \<le> sims ! ?j"
    by (rule top_is_maximal [OF assms(1) ne' assms(3)])
  with assms(4) have "0 < sims ! ?j" by linarith
  moreover from ne' have "?j \<in> set (take m (rev order))" by (rule hd_in_set)
  ultimately have "?j \<in> set (kept_indices sims order k)"
    by (simp add: kept_indices_def m)
  with assms(2) show False by simp
qed

lemma scored_snippets_eq:
  assumes "tfidf_similarities X (q # D) = Inr sims" and "length sims = length D"
    and "is_argsort sims (argsort X sims)"
  shows "scored_snippets X q D k =
           Inr (if kept_indices sims (argsort X sims) k = [] then py_take k D
                else map ((!) D) (kept_indices sims (argsort X sims) k))"
proof -
  obtain m where m: "py_take k (rev (argsort X sims)) = take m (rev (argsort X sims))"
    using py_take_prefix by blast
  have "set (take m (rev (argsort X sims))) \<subseteq> {0..<length sims}"
    using set_take_subset [of m "rev (argsort X sims)"] is_argsort_set [OF assms(3)] by simp
  then have "\<forall>i\<in>set (py_take k (rev (argsort X sims))). i < length sims \<and> i < length D"
    using assms(2) by (auto simp: m)
  then have "relevant_snippets sims D (py_take k (rev (argsort X sims))) =
               Inr (map ((!) D) (kept_indices sims (argsort X sims) k))"
    by (simp add: relevant_snippets_in_range kept_indices_def)
  then show ?thesis
    using assms(1) by (simp add: scored_snippets_def)
qed

lemma get_relevant_snippet_scored:
  assumes "D \<noteq> []" and "py_strip q \<noteq> []"
    and "tfidf_similarities X (q # D) = Inr sims" and "length sims = length D"
    and "is_argsort sims (argsort X sims)"
  shows "get_relevant_snippet X q D k =
           (if kept_indices sims (argsort X sims) k = [] then py_take k D
            else map ((!) D) (kept_indices sims (argsort X sims) k))"
  using assms(1,2) scored_snippets_eq [OF assms(3,4,5)]
  by (simp add: get_relevant_snippet_def)

lemma get_relevant_snippet_failed:
  assumes "tfidf_similarities X (q # D) = Inl e"
  shows "get_relevant_snippet X q D k = py_take k D"
  using assms by (simp add: get_relevant_snippet_def scored_snippets_def py_take_def)

lemma first_k_indices:
  "take m D = map ((!) D) (take m [0..<length D])"
  "length (take m [0..<length D]) \<le> m"
  "distinct (take m [0..<length D])"
  "\<forall>i\<in>set (take m [0..<length D]). i < length D"
proof -
  show "take m D = map ((!) D) (take m [0..<length D])" by (rule take_as_indices)
  show "length (take m [0..<length D]) \<le> m" by simp
  show "distinct (take m [0..<length D])" by (simp add: distinct_take)
  show "\<forall>i\<in>set (take m [0..<length D]). i < length D"
    using set_take_subset [of m "[0..<length D]"] by auto
qed

lemma retrieved_indices:
  assumes k: "0 < k"
    and lib: "\<And>sims. tfidf_similarities X (q # D) = Inr sims \<Longrightarrow>
                length sims = length D \<and> is_argsort sims (argsort X sims)"
  shows "\<exists>idxs. get_relevant_snippet X q D k = map ((!) D) idxs
           \<and> length idxs \<le> nat k \<and> distinct idxs \<and> (\<forall>i\<in>set idxs. i < length D)
           \<and> (\<forall>sims. tfidf_similarities X (q # D) = Inr sims
                 \<and> (\<forall>x\<in>set sims. 0 \<le> x)
                 \<and> ((\<forall>ch\<in>set q. py_isspace ch) \<longrightarrow> (\<forall>x\<in>set sims. x = 0))
                 \<longrightarrow> sorted_wrt (\<lambda>i j. sims ! j \<le> sims ! i) idxs)"
proof -
  let ?R = "get_relevant_snippet X q D k"
  let ?first = "take (nat k) [0..<length D]"
  let ?ordered = "\<lambda>idxs. \<forall>sims. tfidf_similarities X (q # D) = Inr sims
                 \<and> (\<forall>x\<in>set sims. 0 \<le> x)
                 \<and> ((\<forall>ch\<in>set q. py_isspace ch) \<longrightarrow> (\<forall>x\<in>set sims. x = 0))
                 \<longrightarrow> sorted_wrt (\<lambda>i j. sims ! j \<le> sims ! i) idxs"
  have first: "?R = take (nat k) D \<Longrightarrow> ?ordered ?first \<Longrightarrow> ?thesis"
    using first_k_indices [of "nat k" D] by metis
  have zero: "sorted_wrt (\<lambda>i j. sims ! j \<le> sims ! i) ?first"
    if "length sims = length D" and "\<forall>i<length D. sims ! i = 0" for sims :: "real list"
  proof (rule sorted_wrt_all_equal)
    show "\<forall>x\<in>set ?first. \<forall>y\<in>set ?first. sims ! y \<le> sims ! x"
      using that(2) first_k_indices(4) [of "nat k" D] by simp
  qed
  show ?thesis
  proof (cases "D = []")
    case True
    then have "?R = take (nat k) D" by (simp add: get_relevant_snippet_def)
    moreover have "?ordered ?first" using True by simp
    ultimately show ?thesis by (rule first)
  next
    case nonempty: False
    show ?thesis
    proof (cases "\<forall>ch\<in>set q. py_isspace ch")
      case True
      then have "?R = take (nat k) D"
        using nonempty k by (simp add: get_relevant_snippet_def py_strip_blank py_take_pos)
      moreover have "?ordered ?first"
      proof (intro allI impI)
        fix sims
        assume a: "tfidf_similarities X (q # D) = Inr sims
                 \<and> (\<forall>x\<in>set sims. 0 \<le> x)
                 \<and> ((\<forall>ch\<in>set q. py_isspace ch) \<longrightarrow> (\<forall>x\<in>set sims. x = 0))"
        then have len: "length sims = length D" using lib by blast
        from a True have "\<forall>x\<in>set sims. x = 0" by blast
        with len have "\<forall>i<length D. sims ! i = 0" by simp
        with len show "sorted_wrt (\<lambda>i j. sims ! j \<le> sims ! i) ?first" by (rule zero)
      qed
      ultimately show ?thesis by (rule first)
    next
      case False
      then have q: "py_strip q \<noteq> []" by (simp add: py_strip_Nil_iff)
      show ?thesis
      proof (cases "tfidf_similarities X (q # D)")
        case (Inl e)
        then have "?R = take (nat k) D"
          using k by (simp add: get_relevant_snippet_failed py_take_pos)
        moreover have "?ordered ?first" using Inl by simp
        ultimately show ?thesis by (rule first)
      next
        case (Inr sims)
        from lib [OF Inr] have len: "length sims = length D"
          and srt: "is_argsort sims (argsort X sims)" by simp_all
        let ?kept = "kept_indices sims (argsort X sims) k"
        have R: "?R = (if ?kept = [] then py_take k D else map ((!) D) ?kept)"
          by (rule get_relevant_snippet_scored [OF nonempty q Inr len srt])
        show ?thesis
        proof (cases "?kept = []")
          case True
          with R k have "?R = take (nat k) D" by (simp add: py_take_pos)
          moreover have "?ordered ?first"
          proof (intro allI impI)
            fix sims'
            assume a: "tfidf_similarities X (q # D) = Inr sims'
                 \<and> (\<forall>x\<in>set sims'. 0 \<le> x)
                 \<and> ((\<forall>ch\<in>set q. py_isspace ch) \<longrightarrow> (\<forall>x\<in>set sims'. x = 0))"
            with Inr have eq: "sims' = sims" by simp
            have top: "py_take k (rev (argsort X sims)) \<noteq> []"
            proof -
              have "length (argsort X sims) = length D"
                using is_argsort_set [OF srt] is_argsort_distinct [OF srt] len
                by (metis card_atLeastLessThan diff_zero distinct_card)
              with nonempty have "argsort X sims \<noteq> []" by auto
              with k show ?thesis by (simp add: py_take_pos)
            qed
            have "\<forall>i<length D. sims ! i = 0"
            proof (intro allI impI)
              fix i assume i: "i < length D"
              have "\<not> 0 < sims ! i"
                using kept_indices_Nil [OF srt True, of i] i len top by auto
              moreover have "0 \<le> sims ! i" using a eq i len by simp
              ultimately show "sims ! i = 0" by linarith
            qed
            with len eq show "sorted_wrt (\<lambda>i j. sims' ! j \<le> sims' ! i) ?first"
              using zero by simp
          qed
          ultimately show ?thesis by (rule first)
        next
          case False
          with R have "?R = map ((!) D) ?kept" by simp
          moreover have "length ?kept \<le> nat k" "distinct ?kept"
            "\<forall>i\<in>set ?kept. i < length D"
            using kept_indices_props [OF srt, of k] k len by simp_all
          moreover have "?ordered ?kept"
            using kept_indices_props(3) [OF srt, of k] Inr by simp
          ultimately show ?thesis by blast
        qed
      qed
    qed
  qed
qed

section \<open>The snippet retriever\<close>

text \<open>
  Claim C8. For a non-empty document list and a positive \<open>top_k\<close>, a query that is
  empty or whitespace only gets the first \<open>top_k\<close> documents, unchanged and in their
  order, whatever the scoring library would do: the result does not depend on the
  externals. In particular the empty query returns \<open>D[:k]\<close>.
\<close>

theorem get_relevant_snippet_blank_query:
  assumes "D \<noteq> []" and "0 < k" and "\<forall>ch\<in>set q. py_isspace ch"
  shows "get_relevant_snippet X q D k = take (nat k) D
         \<and> get_relevant_snippet X [] D k = take (nat k) D"
  using assms by (simp add: get_relevant_snippet_def py_strip_blank py_take_pos)

theorem get_relevant_snippet_blank_query_witness:
  "get_relevant_snippet example_externals [CHR '' '', CHR 0x0A] example_docs 2 =
     [''Week 3: TF-IDF measures how important a word is in a document.'',
      ''Week 5: Explainable AI gives reasons for model outputs.'']"
proof -
  have a: "example_docs \<noteq> []" by (simp add: example_docs_def)
  have b: "(0::int) < 2" by simp
  have c: "\<forall>ch\<in>set [CHR '' '', CHR 0x0A]. py_isspace ch" by code_simp
  show ?thesis
    using get_relevant_snippet_blank_query [OF a b c, of example_externals]
    by (simp add: example_docs_def)
qed

lemma positive_only_bound:
  assumes "D \<noteq> []" and "\<not> (\<forall>ch\<in>set q. py_isspace ch)"
  shows "(\<forall>e. tfidf_similarities X (q # D) = Inl e \<longrightarrow>
            get_relevant_snippet X q D k = py_take k D)
       \<and> (\<forall>sims. tfidf_similarities X (q # D) = Inr sims \<and> length sims = length D
              \<and> is_argsort sims (argsort X sims) \<longrightarrow>
            ((\<forall>i<length D. \<not> 0 < sims ! i) \<longrightarrow>
               get_relevant_snippet X q D k = py_take k D)
            \<and> ((\<exists>i<length D. 0 < sims ! i) \<longrightarrow>
               (\<exists>idxs. get_relevant_snippet X q D k = map ((!) D) idxs
                   \<and> (\<forall>i\<in>set idxs. i < length D \<and> 0 < sims ! i)
                   \<and> (0 < k \<longrightarrow> length idxs \<le> nat k))))"
proof (intro conjI allI impI)
  fix e assume "tfidf_similarities X (q # D) = Inl e"
  then show "get_relevant_snippet X q D k = py_take k D"
    by (rule get_relevant_snippet_failed)
next
  fix sims
  assume a: "tfidf_similarities X (q # D) = Inr sims \<and> length sims = length D
              \<and> is_argsort sims (argsort X sims)"
  then have sc: "tfidf_similarities X (q # D) = Inr sims" and len: "length sims = length D"
    and srt: "is_argsort sims (argsort X sims)" by simp_all
  from assms(2) have q: "py_strip q \<noteq> []" by (simp add: py_strip_Nil_iff)
  let ?kept = "kept_indices sims (argsort X sims) k"
  have R: "get_relevant_snippet X q D k =
             (if ?kept = [] then py_take k D else map ((!) D) ?kept)"
    by (rule get_relevant_snippet_scored [OF assms(1) q sc len srt])
  have pos: "\<forall>i\<in>set ?kept. i < length D \<and> 0 < sims ! i"
    using kept_indices_props(2) [OF srt, of k] len by simp
  {
    assume none: "\<forall>i<length D. \<not> 0 < sims ! i"
    have "?kept = []"
    proof (cases ?kept)
      case (Cons i rest)
      with pos have "i < length D \<and> 0 < sims ! i" by simp
      with none show ?thesis by blast
    qed simp
    with R show "get_relevant_snippet X q D k = py_take k D" by simp
  }
  {
    assume "\<exists>i<length D. 0 < sims ! i"
    then obtain i where i: "i < length sims" "0 < sims ! i" using len by auto
    show "\<exists>idxs. get_relevant_snippet X q D k = map ((!) D) idxs
                   \<and> (\<forall>i\<in>set idxs. i < length D \<and> 0 < sims ! i)
                   \<and> (0 < k \<longrightarrow> length idxs \<le> nat k)"
    proof (cases "?kept = []")
      case True
      have "py_take k (rev (argsort X sims)) = []"
        by (rule kept_indices_Nil [OF srt True i])
      moreover have "length (rev (argsort X sims)) = length D"
        using is_argsort_set [OF srt] is_argsort_distinct [OF srt] len
        by (metis card_atLeastLessThan diff_zero distinct_card length_rev)
      ultimately have "py_take k D = []" using py_take_Nil_length by blast
      with R True have "get_relevant_snippet X q D k = map ((!) D) []" by simp
      then show ?thesis by (intro exI [of _ "[]"]) simp
    next
      case False
      with R have "get_relevant_snippet X q D k = map ((!) D) ?kept" by simp
      moreover have "0 < k \<longrightarrow> length ?kept \<le> nat k"
        using kept_indices_props(4) [OF srt, of k] by simp
      ultimately show ?thesis using pos by blast
    qed
  }
qed

lemma get_relevant_snippet_exact:
  assumes ne: "D \<noteq> []" and q: "py_strip q \<noteq> []"
    and sc: "tfidf_similarities X (q # D) = Inr sims" and len: "length sims = length D"
    and srt: "is_argsort sims (argsort X sims)"
    and i: "i < length D" "0 < sims ! i" and k: "0 < k"
  shows "get_relevant_snippet X q D k =
           map ((!) D) (filter (\<lambda>i. 0 < sims ! i) (take (nat k) (rev (argsort X sims))))"
    and "get_relevant_snippet X q D k \<noteq> []"
    and "\<forall>j<length D. sims ! j \<le>
           sims ! hd (filter (\<lambda>i. 0 < sims ! i) (take (nat k) (rev (argsort X sims))))"
proof -
  let ?top = "take (nat k) (rev (argsort X sims))"
  let ?kept = "filter (\<lambda>i. 0 < sims ! i) ?top"
  have kept: "kept_indices sims (argsort X sims) k = ?kept"
    using k by (simp add: kept_indices_def py_take_pos)
  have "length (argsort X sims) = length D"
    using is_argsort_set [OF srt] is_argsort_distinct [OF srt] len
    by (metis card_atLeastLessThan diff_zero distinct_card)
  with ne have "argsort X sims \<noteq> []" by auto
  with k have top: "?top \<noteq> []" by simp
  then obtain t ts where tts: "?top = t # ts" by (cases ?top) auto
  then have hd: "hd ?top = t" by simp
  have max: "\<forall>j<length D. sims ! j \<le> sims ! t"
    using top_is_maximal [OF srt top] len hd by simp
  with i have "0 < sims ! t" by force
  with tts have kt: "?kept = t # filter (\<lambda>i. 0 < sims ! i) ts" by simp
  then have kne: "?kept \<noteq> []" by simp
  have R: "get_relevant_snippet X q D k = map ((!) D) ?kept"
    using get_relevant_snippet_scored [OF ne q sc len srt, of k] kept kne by simp
  show "get_relevant_snippet X q D k = map ((!) D) ?kept" by (rule R)
  show "get_relevant_snippet X q D k \<noteq> []" using R kne by simp
  show "\<forall>j<length D. sims ! j \<le> sims ! hd ?kept" using max kt by simp
qed

text \<open>
  Claim C7. Let the document list be non-empty and the query not blank. When the
  scoring raises, the result is \<open>D[:k]\<close>. When it returns one similarity for each
  document and \<open>argsort\<close> keeps its promise: if no document has a similarity above
  zero, the result is \<open>D[:k]\<close>, the first \<open>k\<close> documents; otherwise every document
  returned is one whose similarity is above zero, and for a positive \<open>k\<close> the result
  is exactly the documents of positive similarity among the first \<open>k\<close> of the ranking
  (the reversed \<open>argsort\<close>), in the order of the ranking: at most \<open>k\<close> of them, at
  least one, and the first of them a document of the greatest similarity.
\<close>

theorem get_relevant_snippet_positive_only:
  assumes "D \<noteq> []" and "\<not> (\<forall>ch\<in>set q. py_isspace ch)"
  shows "(\<forall>e. tfidf_similarities X (q # D) = Inl e \<longrightarrow>
            get_relevant_snippet X q D k = py_take k D)
       \<and> (\<forall>sims. tfidf_similarities X (q # D) = Inr sims \<and> length sims = length D
              \<and> is_argsort sims (argsort X sims) \<longrightarrow>
            ((\<forall>i<length D. \<not> 0 < sims ! i) \<longrightarrow>
               get_relevant_snippet X q D k = py_take k D)
            \<and> ((\<exists>i<length D. 0 < sims ! i) \<longrightarrow>
               (\<exists>idxs. get_relevant_snippet X q D k = map ((!) D) idxs
                   \<and> (\<forall>i\<in>set idxs. i < length D \<and> 0 < sims ! i)
                   \<and> (0 < k \<longrightarrow> length idxs \<le> nat k)))
            \<and> ((\<exists>i<length D. 0 < sims ! i) \<and> 0 < k \<longrightarrow>
               get_relevant_snippet X q D k =
                 map ((!) D)
                   (filter (\<lambda>i. 0 < sims ! i) (take (nat k) (rev (argsort X sims))))
               \<and> get_relevant_snippet X q D k \<noteq> []
               \<and> (\<forall>j<length D. sims ! j \<le>
                     sims ! hd (filter (\<lambda>i. 0 < sims ! i)
                                 (take (nat k) (rev (argsort X sims)))))))"
proof -
  from assms(2) have q: "py_strip q \<noteq> []" by (simp add: py_strip_Nil_iff)
  have exact:
    "get_relevant_snippet X q D k =
       map ((!) D) (filter (\<lambda>i. 0 < sims ! i) (take (nat k) (rev (argsort X sims))))
     \<and> get_relevant_snippet X q D k \<noteq> []
     \<and> (\<forall>j<length D. sims ! j \<le>
           sims ! hd (filter (\<lambda>i. 0 < sims ! i) (take (nat k) (rev (argsort X sims)))))"
    if "tfidf_similarities X (q # D) = Inr sims \<and> length sims = length D
          \<and> is_argsort sims (argsort X sims)"
      and "(\<exists>i<length D. 0 < sims ! i) \<and> 0 < k" for sims
  proof -
    from that(1) have sc: "tfidf_similarities X (q # D) = Inr sims"
      and len: "length sims = length D" and srt: "is_argsort sims (argsort X sims)"
      by simp_all
    from that(2) obtain i where i: "i < length D" "0 < sims ! i" and k: "0 < k" by blast
    show ?thesis
      using get_relevant_snippet_exact [OF assms(1) q sc len srt i k] by blast
  qed
  show ?thesis
    using positive_only_bound [OF assms, of X k] exact by blast
qed

theorem get_relevant_snippet_positive_only_witness:
  "get_relevant_snippet example_externals ''What is TF-IDF?'' example_docs 2 =
     [''Week 3: TF-IDF measures how important a word is in a document.'',
      ''Week 7: Text mining uses vectorization methods like TF-IDF.'']
   \<and> get_relevant_snippet example_externals ''What is TF-IDF?''
       [''Week 5: Explainable AI gives reasons for model outputs.''] 2 =
     [''Week 5: Explainable AI gives reasons for model outputs.'']"
proof
  let ?q = "''What is TF-IDF?''"
  have q: "\<not> (\<forall>ch\<in>set ?q. py_isspace ch)" by code_simp
  have ne: "example_docs \<noteq> []" by (simp add: example_docs_def)
  have sc: "tfidf_similarities example_externals (?q # example_docs) = Inr [1 / 2, 0, 1 / 4]"
    by (simp add: example_externals_def example_similarities_def example_docs_def
        example_score_def)
  have "is_argsort [1 / 2, 0, 1 / 4] (stable_argsort [1 / 2, 0, 1 / 4])" by code_simp
  then have srt: "is_argsort [1 / 2, 0, 1 / 4] (argsort example_externals [1 / 2, 0, 1 / 4])"
    by (simp add: example_externals_def)
  have len: "length [1 / 2, 0, 1 / 4 :: real] = length example_docs"
    by (simp add: example_docs_def)
  have some: "\<exists>i<length example_docs. 0 < [1 / 2, 0, 1 / 4 :: real] ! i"
    by (rule exI [of _ 0]) (simp add: example_docs_def)
  have k: "(0::int) < 2" by simp
  have ranking: "filter (\<lambda>i. 0 < [1 / 2, 0, 1 / 4 :: real] ! i)
                   (take (nat 2) (rev (stable_argsort [1 / 2, 0, 1 / 4]))) = [0, 2]"
    by code_simp
  from get_relevant_snippet_positive_only [OF ne q, of example_externals 2] sc srt len some k
  have "get_relevant_snippet example_externals ?q example_docs 2 =
          map ((!) example_docs)
            (filter (\<lambda>i. 0 < [1 / 2, 0, 1 / 4 :: real] ! i)
               (take (nat 2) (rev (argsort example_externals [1 / 2, 0, 1 / 4]))))"
    by blast
  also have "argsort example_externals = stable_argsort"
    by (simp add: example_externals_def)
  finally show "get_relevant_snippet example_externals ?q example_docs 2 =
     [''Week 3: TF-IDF measures how important a word is in a document.'',
      ''Week 7: Text mining uses vectorization methods like TF-IDF.'']"
    by (simp only: ranking) (simp add: example_docs_def)
next
  let ?q = "''What is TF-IDF?''"
  let ?d = "''Week 5: Explainable AI gives reasons for model outputs.''"
  have q: "\<not> (\<forall>ch\<in>set ?q. py_isspace ch)" by code_simp
  have ne: "[?d] \<noteq> []" by simp
  have sc: "tfidf_similarities example_externals (?q # [?d]) = Inr [0]"
    by (simp add: example_externals_def example_similarities_def example_score_def)
  have "is_argsort [0] (stable_argsort [0])" by code_simp
  then have srt: "is_argsort [0] (argsort example_externals [0])"
    by (simp add: example_externals_def)
  from get_relevant_snippet_positive_only [OF ne q, of example_externals 2] sc srt
  have "get_relevant_snippet example_externals ?q [?d] 2 = py_take 2 [?d]"
    by simp
  then show "get_relevant_snippet example_externals ?q [?d] 2 = [?d]"
    by (simp add: py_take_def)
qed

text \<open>
  Claim C2, as amended. For a positive \<open>k\<close>, and a scoring library that returns one
  similarity for each document and an \<open>argsort\<close> that keeps its promise, the result
  has at most \<open>k\<close> documents, each of them an element of \<open>D\<close>; they are the documents
  at pairwise different positions of \<open>D\<close>, so the result has no duplicates when \<open>D\<close>
  has none (a document that occurs twice in \<open>D\<close> may be returned twice); and when the
  scoring returns similarities, none of them negative and all of them zero for a blank
  query, the documents returned are in descending order of similarity.
\<close>

theorem get_relevant_snippet_top_k:
  assumes k: "0 < k"
    and lib: "\<And>sims. tfidf_similarities X (q # D) = Inr sims \<Longrightarrow>
                length sims = length D \<and> is_argsort sims (argsort X sims)"
  shows "length (get_relevant_snippet X q D k) \<le> nat k
       \<and> set (get_relevant_snippet X q D k) \<subseteq> set D
       \<and> (distinct D \<longrightarrow> distinct (get_relevant_snippet X q D k))
       \<and> (\<exists>idxs. get_relevant_snippet X q D k = map ((!) D) idxs
             \<and> distinct idxs \<and> (\<forall>i\<in>set idxs. i < length D)
             \<and> (\<forall>sims. tfidf_similarities X (q # D) = Inr sims
                   \<and> (\<forall>x\<in>set sims. 0 \<le> x)
                   \<and> ((\<forall>ch\<in>set q. py_isspace ch) \<longrightarrow> (\<forall>x\<in>set sims. x = 0))
                   \<longrightarrow> sorted_wrt (\<lambda>i j. sims ! j \<le> sims ! i) idxs))"
proof -
  from retrieved_indices [OF k lib]
  obtain idxs where R: "get_relevant_snippet X q D k = map ((!) D) idxs"
    and len: "length idxs \<le> nat k" and dist: "distinct idxs"
    and rng: "\<forall>i\<in>set idxs. i < length D"
    and ord: "\<forall>sims. tfidf_similarities X (q # D) = Inr sims
                   \<and> (\<forall>x\<in>set sims. 0 \<le> x)
                   \<and> ((\<forall>ch\<in>set q. py_isspace ch) \<longrightarrow> (\<forall>x\<in>set sims. x = 0))
                   \<longrightarrow> sorted_wrt (\<lambda>i j. sims ! j \<le> sims ! i) idxs"
    by blast
  have "length (get_relevant_snippet X q D k) \<le> nat k" using R len by simp
  moreover have "set (get_relevant_snippet X q D k) \<subseteq> set D" using R rng by auto
  moreover have "distinct (get_relevant_snippet X q D k)" if "distinct D"
  proof -
    have "inj_on ((!) D) (set idxs)"
      using that rng by (auto simp: inj_on_def nth_eq_iff_index_eq)
    with dist R show ?thesis by (simp add: distinct_map)
  qed
  ultimately show ?thesis using R dist rng ord by blast
qed

theorem get_relevant_snippet_top_k_witness:
  "length (get_relevant_snippet example_externals ''What is TF-IDF?'' example_docs 2) \<le> 2
   \<and> set (get_relevant_snippet example_externals ''What is TF-IDF?'' example_docs 2)
       \<subseteq> set example_docs
   \<and> distinct (get_relevant_snippet example_externals ''What is TF-IDF?'' example_docs 2)"
proof -
  let ?q = "''What is TF-IDF?''"
  have k: "(0::int) < 2" by simp
  have srt: "is_argsort [1 / 2, 0, 1 / 4] (stable_argsort [1 / 2, 0, 1 / 4])" by code_simp
  have lib: "length sims = length example_docs
               \<and> is_argsort sims (argsort example_externals sims)"
    if "tfidf_similarities example_externals (?q # example_docs) = Inr sims" for sims
  proof -
    from that have "sims = [1 / 2, 0, 1 / 4]"
      by (simp add: example_externals_def example_similarities_def example_docs_def
          example_score_def)
    with srt show ?thesis by (simp add: example_externals_def example_docs_def)
  qed
  have d: "distinct example_docs" by (simp add: example_docs_def)
  show ?thesis
    using get_relevant_snippet_top_k [OF k lib] d by simp
qed

theorem get_relevant_snippet_duplicates_counterexample:
  "\<not> distinct (get_relevant_snippet example_externals [] [''Week 1: Intro'', ''Week 1: Intro''] 2)"
  by (simp add: get_relevant_snippet_def py_strip_def py_lstrip_def py_rstrip_def py_take_def)

section \<open>The pipeline\<close>

lemma run_xai_with_client:
  assumes "ev = (case get_relevant_snippet X q D 1 of [] \<Rightarrow> [] | d # _ \<Rightarrow> d)"
    and "r = reason_mcq q s c ev"
  shows "run_xai X q s c D (Some client) =
           Inr \<lparr>pipeline_result.status = reasoning.status r,
                explanation =
                  (case client system_prompt (user_prompt q s c ev r) of
                     Inl e \<Rightarrow> explanation_hint r
                   | Inr text \<Rightarrow> text),
                evidence = ev,
                pipeline_result.review_topic = reasoning.review_topic r\<rparr>"
  unfolding assms by (simp add: run_xai_def default_client_def Let_def)

lemma example_evidence:
  "get_relevant_snippet example_externals ''What is TF-IDF?'' example_docs 1 =
     [''Week 3: TF-IDF measures how important a word is in a document.'']"
  by code_simp

lemma example_reasoning:
  "reason_mcq ''What is TF-IDF?'' ''A neural network'' ''A term weight''
     ''Week 3: TF-IDF measures how important a word is in a document.'' =
   \<lparr>reasoning.status = ''incorrect'',
    explanation_hint = incorrect_hint,
    reasoning.review_topic =
      evidence_review ''Week 3: TF-IDF measures how important a word is in a document.''\<rparr>"
proof -
  have "py_lower (py_strip ''A neural network'') \<noteq> py_lower (py_strip ''A term weight'')"
    by code_simp
  then show ?thesis by (simp add: reason_mcq_def)
qed

text \<open>
  Claim C1. When the caller supplies a client and its \<open>generate\<close> raises on the prompts
  of this run, whatever the exception, \<open>run_xai\<close> raises nothing: it returns the
  result whose explanation is the \<open>explanation_hint\<close> of the reasoning record, and
  whose status, evidence and review topic are those of the retrieval and of
  \<open>reason_mcq\<close>.
\<close>

theorem run_xai_client_raises:
  assumes "ev = (case get_relevant_snippet X q D 1 of [] \<Rightarrow> [] | d # _ \<Rightarrow> d)"
    and "r = reason_mcq q s c ev"
    and "client system_prompt (user_prompt q s c ev r) = Inl e"
  shows "run_xai X q s c D (Some client) =
           Inr \<lparr>pipeline_result.status = reasoning.status r,
                explanation = explanation_hint r,
                evidence = ev,
                pipeline_result.review_topic = reasoning.review_topic r\<rparr>"
  using assms(3) by (simp add: run_xai_with_client [OF assms(1,2)])

theorem run_xai_client_raises_witness:
  "run_xai example_externals ''What is TF-IDF?'' ''A neural network'' ''A term weight''
     example_docs (Some raising_client) =
   Inr \<lparr>pipeline_result.status = ''incorrect'',
        explanation = incorrect_hint,
        evidence = ''Week 3: TF-IDF measures how important a word is in a document.'',
        pipeline_result.review_topic =
          evidence_review ''Week 3: TF-IDF measures how important a word is in a document.''\<rparr>"
proof -
  let ?ev = "''Week 3: TF-IDF measures how important a word is in a document.''"
  let ?r = "reason_mcq ''What is TF-IDF?'' ''A neural network'' ''A term weight'' ?ev"
  have a: "?ev = (case get_relevant_snippet example_externals ''What is TF-IDF?'' example_docs 1
                  of [] \<Rightarrow> [] | d # _ \<Rightarrow> d)"
    by (simp add: example_evidence)
  have b: "?r = reason_mcq ''What is TF-IDF?'' ''A neural network'' ''A term weight'' ?ev"
    by simp
  have c: "raising_client system_prompt
             (user_prompt ''What is TF-IDF?'' ''A neural network'' ''A term weight'' ?ev ?r) =
           Inl (RuntimeError ''provider unavailable'')"
    by (simp add: raising_client_def)
  show ?thesis
    using run_xai_client_raises [where client = raising_client, OF a b c] by (simp add: example_reasoning)
qed

text \<open>
  Claim C5. When the caller supplies a client and its \<open>generate\<close> returns the text
  \<open>T\<close> on the prompts of this run, the explanation of the result is \<open>T\<close>, unchanged,
  whether the answer is correct or not.
\<close>

theorem run_xai_client_returns:
  assumes "ev = (case get_relevant_snippet X q D 1 of [] \<Rightarrow> [] | d # _ \<Rightarrow> d)"
    and "r = reason_mcq q s c ev"
    and "client system_prompt (user_prompt q s c ev r) = Inr T"
  shows "run_xai X q s c D (Some client) =
           Inr \<lparr>pipeline_result.status = reasoning.status r,
                explanation = T,
                evidence = ev,
                pipeline_result.review_topic = reasoning.review_topic r\<rparr>"
  using assms(3) by (simp add: run_xai_with_client [OF assms(1,2)])

theorem run_xai_client_returns_witness:
  "run_xai example_externals ''What is TF-IDF?'' ''A neural network'' ''A term weight''
     example_docs (Some fixed_client) =
   Inr \<lparr>pipeline_result.status = ''incorrect'',
        explanation = ''Great job!'',
        evidence = ''Week 3: TF-IDF measures how important a word is in a document.'',
        pipeline_result.review_topic =
          evidence_review ''Week 3: TF-IDF measures how important a word is in a document.''\<rparr>
   \<and> explanation (projr (run_xai example_externals ''What is TF-IDF?'' ''a term weight''
        ''A term weight'' example_docs (Some fixed_client))) = ''Great job!''
   \<and> pipeline_result.status (projr (run_xai example_externals ''What is TF-IDF?''
        ''a term weight'' ''A term weight'' example_docs (Some fixed_client))) = ''correct''"
proof -
  let ?ev = "''Week 3: TF-IDF measures how important a word is in a document.''"
  let ?r = "reason_mcq ''What is TF-IDF?'' ''A neural network'' ''A term weight'' ?ev"
  let ?r' = "reason_mcq ''What is TF-IDF?'' ''a term weight'' ''A term weight'' ?ev"
  have a: "?ev = (case get_relevant_snippet example_externals ''What is TF-IDF?'' example_docs 1
                  of [] \<Rightarrow> [] | d # _ \<Rightarrow> d)"
    by (simp add: example_evidence)
  have b: "?r = reason_mcq ''What is TF-IDF?'' ''A neural network'' ''A term weight'' ?ev"
    by simp
  have b': "?r' = reason_mcq ''What is TF-IDF?'' ''a term weight'' ''A term weight'' ?ev"
    by simp
  have c: "fixed_client system_prompt
             (user_prompt ''What is TF-IDF?'' ''A neural network'' ''A term weight'' ?ev ?r) =
           Inr ''Great job!''"
    by (simp add: fixed_client_def)
  have c': "fixed_client system_prompt
             (user_prompt ''What is TF-IDF?'' ''a term weight'' ''A term weight'' ?ev ?r') =
           Inr ''Great job!''"
    by (simp add: fixed_client_def)
  have eq: "py_lower (py_strip ''a term weight'') = py_lower (py_strip ''A term weight'')"
    by code_simp
  have st: "reasoning.status ?r' = ''correct''"
    by (simp add: reason_mcq_def eq)
  show ?thesis
    using run_xai_client_returns [where client = fixed_client, OF a b c]
      run_xai_client_returns [where client = fixed_client, OF a b' c'] st
    by (simp add: example_reasoning)
qed

text \<open>
  Claim C4. When no client is supplied and the environment has no value, or an empty
  one, for \<open>DEEPSEEK_API_KEY\<close>, the constructor of the default provider raises
  \<open>ValueError\<close>, and \<open>run_xai\<close> raises nothing: it returns the result built from the
  reasoning record, with the \<open>explanation_hint\<close> as its explanation.
\<close>

theorem run_xai_without_credential:
  assumes "getenv X ''DEEPSEEK_API_KEY'' = None \<or> getenv X ''DEEPSEEK_API_KEY'' = Some []"
    and "ev = (case get_relevant_snippet X q D 1 of [] \<Rightarrow> [] | d # _ \<Rightarrow> d)"
    and "r = reason_mcq q s c ev"
  shows "DeepSeekClient (getenv X) None deepseek_default_url =
           Inl (ValueError ''DeepSeek API key not provided. Set DEEPSEEK_API_KEY environment variable or pass api_key to constructor.'')
       \<and> run_xai X q s c D None =
           Inr \<lparr>pipeline_result.status = reasoning.status r,
                explanation = explanation_hint r,
                evidence = ev,
                pipeline_result.review_topic = reasoning.review_topic r\<rparr>"
proof -
  have init: "DeepSeekClient (getenv X) None deepseek_default_url =
           Inl (ValueError ''DeepSeek API key not provided. Set DEEPSEEK_API_KEY environment variable or pass api_key to constructor.'')"
    using assms(1) by (auto simp: DeepSeekClient_def client_init_def resolve_key_def)
  then have "default_client X None =
           Inl (ValueError ''DeepSeek API key not provided. Set DEEPSEEK_API_KEY environment variable or pass api_key to constructor.'')"
    by (simp add: default_client_def)
  then have "run_xai X q s c D None =
           Inr \<lparr>pipeline_result.status = reasoning.status r,
                explanation = explanation_hint r,
                evidence = ev,
                pipeline_result.review_topic = reasoning.review_topic r\<rparr>"
    using assms(2,3) by (simp add: run_xai_def Let_def)
  with init show ?thesis by simp
qed

theorem run_xai_without_credential_witness:
  "run_xai example_externals ''What is TF-IDF?'' ''A neural network'' ''A term weight''
     example_docs None =
   Inr \<lparr>pipeline_result.status = ''incorrect'',
        explanation = incorrect_hint,
        evidence = ''Week 3: TF-IDF measures how important a word is in a document.'',
        pipeline_result.review_topic =
          evidence_review ''Week 3: TF-IDF measures how important a word is in a document.''\<rparr>"
proof -
  let ?ev = "''Week 3: TF-IDF measures how important a word is in a document.''"
  let ?r = "reason_mcq ''What is TF-IDF?'' ''A neural network'' ''A term weight'' ?ev"
  have env: "getenv example_externals ''DEEPSEEK_API_KEY'' = None
             \<or> getenv example_externals ''DEEPSEEK_API_KEY'' = Some []"
    by (simp add: example_externals_def)
  have a: "?ev = (case get_relevant_snippet example_externals ''What is TF-IDF?'' example_docs 1
                  of [] \<Rightarrow> [] | d # _ \<Rightarrow> d)"
    by (simp add: example_evidence)
  have b: "?r = reason_mcq ''What is TF-IDF?'' ''A neural network'' ''A term weight'' ?ev"
    by simp
  show ?thesis
    using run_xai_without_credential [OF env a b] by (simp add: example_reasoning)
qed

text \<open>
  Claim C9, as amended. The placeholder provider, \<open>OpenAIClient\<close>, raises nothing: for
  every client and every pair of prompts its \<open>generate\<close> returns one fixed notice,
  which says that the client is not yet implemented. The notice is an ordinary return
  value, so \<open>run_xai\<close> with this client takes it for the generated text: the result has
  the notice as its explanation, not the \<open>explanation_hint\<close>.
\<close>

theorem OpenAIClient_generate_returns_notice:
  assumes "ev = (case get_relevant_snippet X q D 1 of [] \<Rightarrow> [] | d # _ \<Rightarrow> d)"
    and "r = reason_mcq q s c ev"
  shows "OpenAIClient_generate self system user =
           Inr ''OpenAI client not yet implemented. Please use DeepSeekClient for now.''
       \<and> sublist ''not yet implemented''
            ''OpenAI client not yet implemented. Please use DeepSeekClient for now.''
       \<and> run_xai X q s c D (Some (OpenAIClient_generate self)) =
            Inr \<lparr>pipeline_result.status = reasoning.status r,
                 explanation =
                   ''OpenAI client not yet implemented. Please use DeepSeekClient for now.'',
                 evidence = ev,
                 pipeline_result.review_topic = reasoning.review_topic r\<rparr>"
proof -
  have "''OpenAI client not yet implemented. Please use DeepSeekClient for now.'' =
        ''OpenAI client '' @ ''not yet implemented'' @ ''. Please use DeepSeekClient for now.''"
    by simp
  then have sub: "sublist ''not yet implemented''
       ''OpenAI client not yet implemented. Please use DeepSeekClient for now.''"
    unfolding sublist_def by blast
  have gen: "OpenAIClient_generate self sp up =
           Inr ''OpenAI client not yet implemented. Please use DeepSeekClient for now.''"
    for sp up
    by (simp add: OpenAIClient_generate_def openai_placeholder_def)
  have "run_xai X q s c D (Some (OpenAIClient_generate self)) =
            Inr \<lparr>pipeline_result.status = reasoning.status r,
                 explanation =
                   ''OpenAI client not yet implemented. Please use DeepSeekClient for now.'',
                 evidence = ev,
                 pipeline_result.review_topic = reasoning.review_topic r\<rparr>"
    by (simp add: run_xai_with_client [OF assms] gen)
  with sub gen show ?thesis by simp
qed

theorem OpenAIClient_generate_returns_notice_witness:
  "OpenAIClient_generate example_config system_prompt ''Question: What is TF-IDF?'' =
     Inr ''OpenAI client not yet implemented. Please use DeepSeekClient for now.''
   \<and> run_xai example_externals ''What is TF-IDF?'' ''a term weight'' ''A term weight''
       example_docs (Some (OpenAIClient_generate example_config)) =
     Inr \<lparr>pipeline_result.status = ''correct'',
          explanation = ''OpenAI client not yet implemented. Please use DeepSeekClient for now.'',
          evidence = ''Week 3: TF-IDF measures how important a word is in a document.'',
          pipeline_result.review_topic = correct_review\<rparr>"
proof -
  let ?ev = "''Week 3: TF-IDF measures how important a word is in a document.''"
  let ?r = "reason_mcq ''What is TF-IDF?'' ''a term weight'' ''A term weight'' ?ev"
  have a: "?ev = (case get_relevant_snippet example_externals ''What is TF-IDF?'' example_docs 1
                  of [] \<Rightarrow> [] | d # _ \<Rightarrow> d)"
    by (simp add: example_evidence)
  have b: "?r = reason_mcq ''What is TF-IDF?'' ''a term weight'' ''A term weight'' ?ev"
    by simp
  have eq: "py_lower (py_strip ''a term weight'') = py_lower (py_strip ''A term weight'')"
    by code_simp
  have r: "?r = \<lparr>reasoning.status = ''correct'', explanation_hint = correct_hint,
                  reasoning.review_topic = correct_review\<rparr>"
    by (simp add: reason_mcq_def eq)
  show ?thesis
    using OpenAIClient_generate_returns_notice [OF a b, of example_config system_prompt
        "''Question: What is TF-IDF?''"]
    by (simp add: r)
qed

theorem OpenAIClient_generate_succeeds_counterexample:
  "\<not> isl (OpenAIClient_generate example_config system_prompt ''Question: What is TF-IDF?'')
   \<and> OpenAIClient_generate example_config system_prompt ''Question: What is TF-IDF?'' =
       Inr ''OpenAI client not yet implemented. Please use DeepSeekClient for now.''
   \<and> run_xai example_externals ''What is TF-IDF?'' ''A neural network'' ''A term weight''
       example_docs (Some (OpenAIClient_generate example_config)) =
     Inr \<lparr>pipeline_result.status = ''incorrect'',
          explanation = ''OpenAI client not yet implemented. Please use DeepSeekClient for now.'',
          evidence = ''Week 3: TF-IDF measures how important a word is in a document.'',
          pipeline_result.review_topic =
            evidence_review ''Week 3: TF-IDF measures how important a word is in a document.''\<rparr>
   \<and> explanation_hint (reason_mcq ''What is TF-IDF?'' ''A neural network'' ''A term weight''
         ''Week 3: TF-IDF measures how important a word is in a document.'')
       \<noteq> ''OpenAI client not yet implemented. Please use DeepSeekClient for now.''"
proof -
  let ?ev = "''Week 3: TF-IDF measures how important a word is in a document.''"
  let ?r = "reason_mcq ''What is TF-IDF?'' ''A neural network'' ''A term weight'' ?ev"
  have a: "?ev = (case get_relevant_snippet example_externals ''What is TF-IDF?'' example_docs 1
                  of [] \<Rightarrow> [] | d # _ \<Rightarrow> d)"
    by (simp add: example_evidence)
  have b: "?r = reason_mcq ''What is TF-IDF?'' ''A neural network'' ''A term weight'' ?ev"
    by simp
  have gen: "OpenAIClient_generate example_config sp up =
           Inr ''OpenAI client not yet implemented. Please use DeepSeekClient for now.''"
    for sp up
    by (simp add: OpenAIClient_generate_def openai_placeholder_def)
  have hint: "explanation_hint ?r \<noteq>
      ''OpenAI client not yet implemented. Please use DeepSeekClient for now.''"
    by (simp add: example_reasoning incorrect_hint_def)
  show ?thesis
    using hint by (simp add: run_xai_with_client [OF a b] gen example_reasoning)
qed

end
